theory Spec2Isabelle
  imports Main "HOL-Library.List_Lexorder"
begin

section \<open>Python strings\<close>

text \<open>
  A Python \<open>str\<close> is a sequence of Unicode code points; it is modelled as the list of
  its code points. \<open>u\<close> turns an ASCII literal into such a list.
\<close>

type_synonym pystr = "nat list"

definition u :: "string \<Rightarrow> pystr" where
  "u s = map of_char s"

text \<open>Truthiness of an optional string: \<open>if x:\<close> holds for a non-empty string only.\<close>

fun truthy :: "pystr option \<Rightarrow> bool" where
  "truthy None = False"
| "truthy (Some s) = (s \<noteq> [])"

text \<open>\<open>''.join(xs)\<close>.\<close>

definition join :: "pystr list \<Rightarrow> pystr" where
  "join xs = concat xs"

text \<open>
  \<open>s.replace(old, new)\<close>: the non-overlapping occurrences of \<open>old\<close>, found from the
  left, are replaced; with an empty \<open>old\<close>, \<open>new\<close> is inserted before every character
  and at the end.
\<close>

function replace :: "pystr \<Rightarrow> pystr \<Rightarrow> pystr \<Rightarrow> pystr" where
  "replace old new [] = (if old = [] then new else [])"
| "replace old new (c # cs) =
     (if old = [] then new @ c # replace old new cs
      else if take (length old) (c # cs) = old
        then new @ replace old new (drop (length old) (c # cs))
        else c # replace old new cs)"
  by pat_completeness auto
termination
  by (relation "measure (\<lambda>(old, new, s). length s)") auto

text \<open>
  \<open>str.isspace\<close> on one code point, and \<open>s.strip()\<close>, which removes leading and
  trailing whitespace.
\<close>

definition isspace :: "nat \<Rightarrow> bool" where
  "isspace c = ((9 \<le> c \<and> c \<le> 13) \<or> (28 \<le> c \<and> c \<le> 32) \<or> c = 133 \<or> c = 160
     \<or> c = 5760 \<or> (8192 \<le> c \<and> c \<le> 8202) \<or> c = 8232 \<or> c = 8233 \<or> c = 8239
     \<or> c = 8287 \<or> c = 12288)"

definition strip :: "pystr \<Rightarrow> pystr" where
  "strip s = rev (dropWhile isspace (rev (dropWhile isspace s)))"

text \<open>\<open>str(n)\<close> for an integer, as an f-string formats it.\<close>

function str_nat :: "nat \<Rightarrow> pystr" where
  "str_nat n = (if n < 10 then [48 + n] else str_nat (n div 10) @ [48 + n mod 10])"
  by pat_completeness auto
termination
  by (relation "measure id") auto

definition str_int :: "int \<Rightarrow> pystr" where
  "str_int i = (if i < 0 then 45 # str_nat (nat (- i)) else str_nat (nat i))"

section \<open>The element tree\<close>

text \<open>
  An lxml element: its qualified tag, its attributes (keys in Clark notation, as
  \<open>elem.get\<close> takes them), its leading text, its children and its tail text. The tree
  holds elements only: comments and processing instructions are not represented, so
  \<open>isinstance(elem.tag, str)\<close> holds of every node.
\<close>

datatype qname = QName (namespace: "pystr option") (localname: pystr)

datatype element =
  Element (etag: qname) (attrib: "(pystr \<times> pystr) list") (etext: "pystr option")
    (children: "element list") (etail: "pystr option")

definition TEI_NS :: pystr where
  "TEI_NS = u ''http://www.tei-c.org/ns/1.0''"

definition tei :: "string \<Rightarrow> qname" where
  "tei name = QName (Some TEI_NS) (u name)"

definition XML_ID :: pystr where
  "XML_ID = u ''{http://www.w3.org/XML/1998/namespace}id''"

definition XML_LANG :: pystr where
  "XML_LANG = u ''{http://www.w3.org/XML/1998/namespace}lang''"

text \<open>\<open>elem.get(key)\<close> and \<open>elem.get(key, default)\<close>.\<close>

definition get :: "element \<Rightarrow> pystr \<Rightarrow> pystr option" where
  "get e k = map_of (attrib e) k"

definition get_or :: "element \<Rightarrow> pystr \<Rightarrow> pystr \<Rightarrow> pystr" where
  "get_or e k d = (case get e k of None \<Rightarrow> d | Some v \<Rightarrow> v)"

text \<open>
  \<open>elem.itertext()\<close>: the element's text, then for every child its own texts followed
  by its tail, in document order. The element's own tail is not part of it.
\<close>

fun opt_str :: "pystr option \<Rightarrow> pystr list" where
  "opt_str None = []"
| "opt_str (Some s) = [s]"

fun itertext :: "element \<Rightarrow> pystr list" where
  "itertext (Element t a tx cs tt) =
     opt_str tx @ concat (map (\<lambda>c. itertext c @ opt_str (etail c)) cs)"

text \<open>
  \<open>elem.find('tei:x')\<close> and \<open>elem.findall('tei:x')\<close>: the direct children with that
  qualified tag. \<open>elem.findall('.//tei:x')\<close>: the proper descendants with that tag, in
  document order.
\<close>

definition findall :: "qname \<Rightarrow> element \<Rightarrow> element list" where
  "findall q e = filter (\<lambda>c. etag c = q) (children e)"

definition find :: "qname \<Rightarrow> element \<Rightarrow> element option" where
  "find q e = (case findall q e of [] \<Rightarrow> None | c # _ \<Rightarrow> Some c)"

fun descendants :: "element \<Rightarrow> element list" where
  "descendants (Element t a tx cs tt) = concat (map (\<lambda>c. c # descendants c) cs)"

definition findall_desc :: "qname \<Rightarrow> element \<Rightarrow> element list" where
  "findall_desc q e = filter (\<lambda>c. etag c = q) (descendants e)"

section \<open>The data model of the parser\<close>

record AppReading =
  rd_wit :: pystr
  rd_text :: pystr
  rd_note :: "pystr option"

record AppEntry =
  ae_id :: pystr
  ae_index :: int
  ae_lem :: pystr
  ae_lem_wit :: "pystr option"
  ae_readings :: "AppReading list"
  ae_note :: "pystr option"

record ContentNode =
  cn_type :: pystr
  cn_value :: "pystr option"
  cn_id :: "pystr option"
  cn_index :: "int option"
  cn_lem :: "pystr option"
  cn_rdg_s :: "pystr option"
  cn_note :: "pystr option"
  cn_target :: "pystr option"
  cn_text :: "pystr option"
  cn_ed :: "pystr option"
  cn_n :: "pystr option"
  cn_ka :: "pystr option"
  cn_grc :: "pystr option"

text \<open>\<open>ContentNode(type=t)\<close>: every other field has the default \<open>None\<close>.\<close>

definition node :: "pystr \<Rightarrow> ContentNode" where
  "node t = \<lparr>cn_type = t, cn_value = None, cn_id = None, cn_index = None, cn_lem = None,
     cn_rdg_s = None, cn_note = None, cn_target = None, cn_text = None, cn_ed = None,
     cn_n = None, cn_ka = None, cn_grc = None\<rparr>"

definition text_node :: "pystr \<Rightarrow> ContentNode" where
  "text_node v = (node (u ''text''))\<lparr>cn_value := Some v\<rparr>"

section \<open>The mixed-content walker\<close>

text \<open>
  The state \<open>_parse_section_content\<close> and its closure \<open>process_element\<close> share: the two
  lists they append to and the counter declared \<open>nonlocal\<close>.
\<close>

record walk =
  content :: "ContentNode list"
  apparatus :: "AppEntry list"
  app_counter :: int

definition append_node :: "ContentNode \<Rightarrow> walk \<Rightarrow> walk" where
  "append_node n st = st\<lparr>content := content st @ [n]\<rparr>"

text \<open>\<open>if t: content.append(ContentNode(type='text', value=t))\<close>.\<close>

definition append_text :: "pystr option \<Rightarrow> walk \<Rightarrow> walk" where
  "append_text t st = (case t of None \<Rightarrow> st
     | Some s \<Rightarrow> if s \<noteq> [] then append_node (text_node s) st else st)"

text \<open>The loop over the readings of an apparatus element: one pass of its body.\<close>

definition reading_note :: "element \<Rightarrow> pystr option" where
  "reading_note rdg = (case find (tei ''note'') rdg of None \<Rightarrow> None | Some ne \<Rightarrow> etext ne)"

definition reading_wit :: "element \<Rightarrow> pystr" where
  "reading_wit rdg = replace (u ''#'') [] (get_or rdg (u ''wit'') [])"

definition reading_text :: "element \<Rightarrow> pystr" where
  "reading_text rdg = strip (join (itertext rdg))"

definition reading :: "element \<Rightarrow> AppReading" where
  "reading rdg = \<lparr>rd_wit = reading_wit rdg,
     rd_text = (if \<not> truthy (reading_note rdg) then reading_text rdg else []),
     rd_note = reading_note rdg\<rparr>"

fun readings_loop :: "element list \<Rightarrow> AppReading list \<times> pystr option
    \<Rightarrow> AppReading list \<times> pystr option" where
  "readings_loop [] acc = acc"
| "readings_loop (rdg # rdgs) (readings, rdg_s_text) =
     readings_loop rdgs
       (readings @ [reading rdg],
        if reading_wit rdg = u ''S'' \<and> reading_text rdg \<noteq> []
        then Some (reading_text rdg) else rdg_s_text)"

text \<open>The branch for \<open>tag == 'app'\<close>.\<close>

definition process_app :: "element \<Rightarrow> walk \<Rightarrow> walk" where
  "process_app elem st =
     (let counter = app_counter st + 1;
          app_id = get_or elem XML_ID (u ''app.'' @ str_int counter);
          lem_elem = find (tei ''lem'') elem;
          lem_text = (case lem_elem of Some l \<Rightarrow> join (itertext l) | None \<Rightarrow> []);
          lem_wit = (case lem_elem of
                       Some l \<Rightarrow> Some (replace (u ''#'') [] (get_or l (u ''wit'') []))
                     | None \<Rightarrow> None);
          (readings, rdg_s_text) = readings_loop (findall (tei ''rdg'') elem) ([], None)
      in \<lparr>content = content st @
             [(node (u ''app''))\<lparr>cn_id := Some app_id, cn_index := Some counter,
                cn_lem := Some lem_text, cn_rdg_s := rdg_s_text,
                cn_note := (case readings of [] \<Rightarrow> None | r # _ \<Rightarrow> rd_note r)\<rparr>],
           apparatus = apparatus st @
             [\<lparr>ae_id = app_id, ae_index = counter, ae_lem = lem_text, ae_lem_wit = lem_wit,
               ae_readings = readings, ae_note = None\<rparr>],
           app_counter = counter\<rparr>)"

text \<open>The branches that append one node and leave the counter alone.\<close>

definition term_node :: "element \<Rightarrow> ContentNode" where
  "term_node elem = (node (u ''term''))
     \<lparr>cn_target := Some (replace (u ''#'') [] (get_or elem (u ''target'') [])),
      cn_text := Some (join (itertext elem))\<rparr>"

definition folio_node :: "element \<Rightarrow> ContentNode" where
  "folio_node elem = (node (u ''folio''))
     \<lparr>cn_ed := Some (replace (u ''#'') [] (get_or elem (u ''ed'') [])),
      cn_n := Some (get_or elem (u ''n'') [])\<rparr>"

definition cb_node :: "element \<Rightarrow> ContentNode" where
  "cb_node elem =
     (let n = get_or elem (u ''n'') [] in
      (node (u ''folio''))
        \<lparr>cn_ed := Some (replace (u ''#'') [] (get_or elem (u ''ed'') [])),
         cn_n := Some (if n \<noteq> [] then n else [])\<rparr>)"

definition greek_node :: "element \<Rightarrow> ContentNode" where
  "greek_node elem = (node (u ''greek''))\<lparr>cn_text := Some (join (itertext elem))\<rparr>"

text \<open>
  The branch for \<open>tag == 'mentioned'\<close>. \<open>next_sib\<close> is what \<open>elem.getnext()\<close> returns:
  the following sibling, or \<open>None\<close> for a last child.
\<close>

definition mentioned_grc :: "element option \<Rightarrow> pystr option" where
  "mentioned_grc next_sib =
     (case next_sib of
        None \<Rightarrow> None
      | Some s \<Rightarrow>
          if localname (etag s) = u ''gloss''
          then (case find (tei ''foreign'') s of
                  None \<Rightarrow> None
                | Some foreign \<Rightarrow> Some (join (itertext foreign)))
          else None)"

definition mentioned_node :: "element \<Rightarrow> element option \<Rightarrow> ContentNode" where
  "mentioned_node elem next_sib = (node (u ''mentioned''))
     \<lparr>cn_ka := Some (join (itertext elem)), cn_grc := mentioned_grc next_sib\<rparr>"

text \<open>
  \<open>process_element(elem, tail_text=None)\<close>, with the sibling that \<open>getnext\<close> reads as
  an argument, and the loop \<open>for child in elem: process_element(child); if child.tail:
  ...\<close> of its last branch, which is also the loop over the children of a paragraph.
\<close>

fun process_element :: "element \<Rightarrow> element option \<Rightarrow> pystr option \<Rightarrow> walk \<Rightarrow> walk"
  and process_children :: "element list \<Rightarrow> walk \<Rightarrow> walk" where
  "process_element (Element q a tx cs tt) next_sib tail_text st =
     (let elem = Element q a tx cs tt; tag = localname q in
      append_text tail_text
       (if tag = u ''app'' then process_app elem st
        else if tag = u ''term'' then append_node (term_node elem) st
        else if tag = u ''pb'' then append_node (folio_node elem) st
        else if tag = u ''milestone'' \<and> get elem (u ''unit'') = Some (u ''folio'')
          then append_node (folio_node elem) st
        else if tag = u ''cb'' then append_node (cb_node elem) st
        else if tag = u ''foreign'' \<and> get elem XML_LANG = Some (u ''grc'')
          then append_node (greek_node elem) st
        else if tag = u ''mentioned'' then append_node (mentioned_node elem next_sib) st
        else if tag = u ''gloss'' then st
        else if tag = u ''persName'' \<or> tag = u ''q''
          then append_node (text_node (join (itertext elem))) st
        else process_children cs (append_text tx st)))"
| "process_children [] st = st"
| "process_children (child # rest) st =
     process_children rest
       (append_text (etail child)
          (process_element child (case rest of [] \<Rightarrow> None | n # _ \<Rightarrow> Some n) None st))"

text \<open>\<open>_parse_section_content(div_elem, app_counter)\<close>.\<close>

definition parse_paragraph :: "element \<Rightarrow> walk \<Rightarrow> walk" where
  "parse_paragraph p st = process_children (children p) (append_text (etext p) st)"

definition parse_section_content ::
    "element \<Rightarrow> int \<Rightarrow> ContentNode list \<times> AppEntry list \<times> int" where
  "parse_section_content div_elem counter =
     (let st = fold parse_paragraph (findall_desc (tei ''p'') div_elem)
                 \<lparr>content = [], apparatus = [], app_counter = counter\<rparr>
      in (content st, apparatus st, app_counter st))"

section \<open>XPath queries\<close>

text \<open>
  The XPath expressions of the parser select nodes by the tags and attributes of a node
  and of its nearest ancestors, and return them in document order. A query is given by a
  predicate on the chain of elements from the selected element (or, for \<open>text()\<close>, from
  the parent of the text node) up to the context node. An element has at most two kinds
  of text-node children: its leading text and the tails of its children; an empty string
  is no text node.
\<close>

fun text_nodes :: "pystr option \<Rightarrow> pystr list" where
  "text_nodes None = []"
| "text_nodes (Some s) = (if s = [] then [] else [s])"

fun xp_elems :: "(element list \<Rightarrow> bool) \<Rightarrow> element list \<Rightarrow> element \<Rightarrow> element list" where
  "xp_elems P anc (Element q a tx cs tt) =
     (let chain = Element q a tx cs tt # anc in
      (if P chain then [Element q a tx cs tt] else [])
      @ concat (map (\<lambda>c. xp_elems P chain c) cs))"

fun xp_texts :: "(element list \<Rightarrow> bool) \<Rightarrow> element list \<Rightarrow> element \<Rightarrow> pystr list" where
  "xp_texts P anc (Element q a tx cs tt) =
     (let chain = Element q a tx cs tt # anc in
      (if P chain then text_nodes tx else [])
      @ concat (map (\<lambda>c. xp_texts P chain c
                           @ (if P chain then text_nodes (etail c) else [])) cs))"

text \<open>A query on the whole tree (\<open>tree.xpath('//...')\<close>), and one relative to an element.\<close>

definition doc_elems :: "(element list \<Rightarrow> bool) \<Rightarrow> element \<Rightarrow> element list" where
  "doc_elems P root = xp_elems P [] root"

definition doc_texts :: "(element list \<Rightarrow> bool) \<Rightarrow> element \<Rightarrow> pystr list" where
  "doc_texts P root = xp_texts P [] root"

definition rel_elems :: "(element list \<Rightarrow> bool) \<Rightarrow> element \<Rightarrow> element list" where
  "rel_elems P ctx = concat (map (\<lambda>c. xp_elems P [ctx] c) (children ctx))"

definition rel_texts :: "(element list \<Rightarrow> bool) \<Rightarrow> element \<Rightarrow> pystr list" where
  "rel_texts P ctx = concat (map (\<lambda>c. xp_texts P [ctx] c) (children ctx))"

text \<open>\<open>xs[0] if xs else d\<close>.\<close>

fun first_or :: "'a list \<Rightarrow> 'a \<Rightarrow> 'a" where
  "first_or [] d = d"
| "first_or (x # xs) d = x"

fun first_opt :: "'a list \<Rightarrow> 'a option" where
  "first_opt [] = None"
| "first_opt (x # xs) = Some x"

section \<open>Identifier and metadata\<close>

text \<open>\<open>//tei:idno[@type="cts-urn"]/text()\<close>\<close>

fun is_cts_idno :: "element list \<Rightarrow> bool" where
  "is_cts_idno (e # anc) = (etag e = tei ''idno'' \<and> get e (u ''type'') = Some (u ''cts-urn''))"
| "is_cts_idno [] = False"

definition DEFAULT_URN :: pystr where
  "DEFAULT_URN = u ''urn:cts:georgian:shanidze.arthron.ed2025''"

definition get_cts_urn :: "element \<Rightarrow> pystr" where
  "get_cts_urn tree = first_or (doc_texts is_cts_idno tree) DEFAULT_URN"

text \<open>\<open>//tei:editor[@role="scholarly"]/tei:persName/text()\<close>\<close>

fun is_editor_name :: "element list \<Rightarrow> bool" where
  "is_editor_name (pn # ed # anc) =
     (etag pn = tei ''persName'' \<and> etag ed = tei ''editor''
      \<and> get ed (u ''role'') = Some (u ''scholarly''))"
| "is_editor_name _ = False"

text \<open>
  The string constants of \<open>get_metadata\<close>, as code points: the editor's name
  (U+10D0 U+10D9 U+10D0 U+10D9 U+10D8, a space, U+10E8 U+10D0 U+10DC U+10D8 U+10EB
  U+10D4), the place of publication, the year and the title of the source.
\<close>

definition DEFAULT_EDITOR :: pystr where
  "DEFAULT_EDITOR = [4304, 4313, 4304, 4313, 4312, 32, 4328, 4304, 4316, 4312, 4331, 4308]"

definition PUBLICATION_PLACE :: pystr where
  "PUBLICATION_PLACE = [4311, 4305, 4312, 4314, 4312, 4321, 4312]"

definition PUBLICATION_YEAR :: pystr where
  "PUBLICATION_YEAR = u ''1990''"

definition SOURCE_TITLE :: pystr where
  "SOURCE_TITLE = [4331, 4309, 4308, 4314, 4312, 32, 4325, 4304, 4320, 4311, 4323, 4314,
     4312, 32, 4308, 4316, 4312, 4321, 32, 4313, 4304, 4311, 4308, 4307, 4320, 4312, 4321,
     32, 4328, 4320, 4317, 4315, 4308, 4305, 4312, 44, 32, 51, 50]"

record Metadata =
  md_editor :: pystr
  md_publication_place :: pystr
  md_publication_year :: pystr
  md_source_title :: pystr
  md_cts_urn :: pystr
  md_github_url :: pystr

definition get_metadata :: "element \<Rightarrow> Metadata" where
  "get_metadata tree =
     (let editor = doc_texts is_editor_name tree in
      \<lparr>md_editor = first_or editor DEFAULT_EDITOR,
       md_publication_place = PUBLICATION_PLACE,
       md_publication_year = PUBLICATION_YEAR,
       md_source_title = SOURCE_TITLE,
       md_cts_urn = get_cts_urn tree,
       md_github_url = u ''https://github.com''\<rparr>)"

section \<open>Sections\<close>

record Folio =
  fo_ed :: pystr
  fo_n :: pystr

record Section =
  sec_n :: pystr
  sec_xml_id :: pystr
  sec_urn :: pystr
  sec_incipit :: pystr
  sec_content :: "ContentNode list"
  sec_folios :: "Folio list"
  sec_apparatus :: "AppEntry list"

text \<open>\<open>//tei:body/tei:div[@type="section"]\<close>\<close>

fun is_section_div :: "element list \<Rightarrow> bool" where
  "is_section_div (d # b # anc) =
     (etag d = tei ''div'' \<and> get d (u ''type'') = Some (u ''section'')
      \<and> etag b = tei ''body'')"
| "is_section_div _ = False"

definition folio_dict :: "element \<Rightarrow> Folio" where
  "folio_dict e = \<lparr>fo_ed = replace (u ''#'') [] (get_or e (u ''ed'') []),
                   fo_n = get_or e (u ''n'') []\<rparr>"

text \<open>
  The two loops that fill \<open>folios\<close>: over \<open>div.findall('tei:pb')\<close>, then over
  \<open>div.findall('tei:milestone[@unit="folio"]')\<close>.
\<close>

definition section_folios :: "element \<Rightarrow> Folio list" where
  "section_folios div_elem =
     map folio_dict (findall (tei ''pb'') div_elem)
     @ map folio_dict
         (filter (\<lambda>ms. get ms (u ''unit'') = Some (u ''folio''))
            (findall (tei ''milestone'') div_elem))"

definition incipit :: "ContentNode list \<Rightarrow> pystr" where
  "incipit cont =
     (let text_content = join (map (\<lambda>n. case cn_value n of Some v \<Rightarrow> v | None \<Rightarrow> [])
            (filter (\<lambda>n. cn_type n = u ''text'' \<and> truthy (cn_value n)) cont))
      in if text_content \<noteq> [] then strip (take 50 text_content) else [])"

text \<open>One pass of the loop of \<open>get_sections\<close>, from the counter before to the counter after.\<close>

definition section_of :: "pystr \<Rightarrow> element \<Rightarrow> int \<Rightarrow> Section \<times> int" where
  "section_of base_urn div_elem counter =
     (let n = get_or div_elem (u ''n'') [];
          xml_id = get_or div_elem XML_ID (u ''sec.'' @ n);
          folios = section_folios div_elem;
          (cont, app, counter') = parse_section_content div_elem counter
      in (\<lparr>sec_n = n, sec_xml_id = xml_id, sec_urn = base_urn @ u '':'' @ n,
           sec_incipit = incipit cont, sec_content = cont, sec_folios = folios,
           sec_apparatus = app\<rparr>, counter'))"

fun sections_loop :: "pystr \<Rightarrow> element list \<Rightarrow> Section list \<times> int \<Rightarrow> Section list \<times> int" where
  "sections_loop base_urn [] acc = acc"
| "sections_loop base_urn (d # ds) (sections, counter) =
     (let (s, counter') = section_of base_urn d counter
      in sections_loop base_urn ds (sections @ [s], counter'))"

definition get_sections :: "element \<Rightarrow> Section list" where
  "get_sections tree =
     fst (sections_loop (get_cts_urn tree) (doc_elems is_section_div tree) ([], 0))"

section \<open>The lexicon\<close>

text \<open>
  \<open>sub in s\<close>, and \<open>s.split(sep)\<close> for a non-empty separator (the parser splits at
  \<open>'sec.'\<close> only): the pieces between the non-overlapping occurrences found from the left.
\<close>

fun contains :: "pystr \<Rightarrow> pystr \<Rightarrow> bool" where
  "contains sub [] = (sub = [])"
| "contains sub (c # cs) = (take (length sub) (c # cs) = sub \<or> contains sub cs)"

function split_acc :: "pystr \<Rightarrow> pystr \<Rightarrow> pystr \<Rightarrow> pystr list" where
  "split_acc sep cur [] = [cur]"
| "split_acc sep cur (c # cs) =
     (if sep \<noteq> [] \<and> take (length sep) (c # cs) = sep
      then cur # split_acc sep [] (drop (length sep) (c # cs))
      else split_acc sep (cur @ [c]) cs)"
  by pat_completeness auto
termination
  by (relation "measure (\<lambda>(sep, cur, s). length s)") auto

definition split :: "pystr \<Rightarrow> pystr \<Rightarrow> pystr list" where
  "split sep s = split_acc sep [] s"

record Sense =
  se_def_ka :: pystr
  se_def_en :: pystr

record Example =
  ex_quote :: pystr
  ex_ref :: pystr

record LexiconEntry =
  le_id :: pystr
  le_lemma :: pystr
  le_pos :: "pystr option"
  le_greek :: "pystr option"
  le_senses :: "Sense list"
  le_examples :: "Example list"
  le_occurrences :: "pystr list"
  le_see_also :: "pystr list"
  le_note :: "pystr option"
  le_occurrence_count :: int

text \<open>\<open>//tei:entry\<close>\<close>

fun is_entry :: "element list \<Rightarrow> bool" where
  "is_entry (e # anc) = (etag e = tei ''entry'')"
| "is_entry [] = False"

text \<open>\<open>.//tei:form[@type="lemma"]/tei:orth/text()\<close>\<close>

fun is_lemma_orth :: "element list \<Rightarrow> bool" where
  "is_lemma_orth (orth # form # ctx # anc) =
     (etag orth = tei ''orth'' \<and> etag form = tei ''form''
      \<and> get form (u ''type'') = Some (u ''lemma''))"
| "is_lemma_orth _ = False"

text \<open>\<open>.//tei:pos/text()\<close>\<close>

fun is_pos :: "element list \<Rightarrow> bool" where
  "is_pos (pos # ctx # anc) = (etag pos = tei ''pos'')"
| "is_pos _ = False"

text \<open>\<open>.//tei:etym/tei:mentioned/text()\<close>\<close>

fun is_etym_mentioned :: "element list \<Rightarrow> bool" where
  "is_etym_mentioned (m # etym # ctx # anc) =
     (etag m = tei ''mentioned'' \<and> etag etym = tei ''etym'')"
| "is_etym_mentioned _ = False"

text \<open>\<open>.//tei:cit[@type="translation"]/tei:quote/text()\<close>\<close>

fun is_translation_quote :: "element list \<Rightarrow> bool" where
  "is_translation_quote (quote # cit # ctx # anc) =
     (etag quote = tei ''quote'' \<and> etag cit = tei ''cit''
      \<and> get cit (u ''type'') = Some (u ''translation''))"
| "is_translation_quote _ = False"

text \<open>\<open>tei:def[@xml:lang="..."]/text()\<close>, relative to a sense\<close>

fun is_def_lang :: "pystr \<Rightarrow> element list \<Rightarrow> bool" where
  "is_def_lang lang [d, ctx] = (etag d = tei ''def'' \<and> get d XML_LANG = Some lang)"
| "is_def_lang lang _ = False"

text \<open>\<open>tei:quote/text()\<close> and \<open>tei:bibl/tei:ref/text()\<close>, relative to a citation\<close>

fun is_child_quote :: "element list \<Rightarrow> bool" where
  "is_child_quote [quote, ctx] = (etag quote = tei ''quote'')"
| "is_child_quote _ = False"

fun is_bibl_ref :: "element list \<Rightarrow> bool" where
  "is_bibl_ref [ref, bibl, ctx] = (etag ref = tei ''ref'' \<and> etag bibl = tei ''bibl'')"
| "is_bibl_ref _ = False"

text \<open>\<open>.//tei:cit/tei:bibl/tei:ref/@target\<close>\<close>

fun is_cit_bibl_ref :: "element list \<Rightarrow> bool" where
  "is_cit_bibl_ref (ref # bibl # cit # ctx # anc) =
     (etag ref = tei ''ref'' \<and> etag bibl = tei ''bibl'' \<and> etag cit = tei ''cit'')"
| "is_cit_bibl_ref _ = False"

text \<open>\<open>tei:ref/@target\<close>, relative to a cross-reference, and \<open>tei:note/text()\<close>\<close>

fun is_child_ref :: "element list \<Rightarrow> bool" where
  "is_child_ref [ref, ctx] = (etag ref = tei ''ref'')"
| "is_child_ref _ = False"

fun is_child_note :: "element list \<Rightarrow> bool" where
  "is_child_note [note, ctx] = (etag note = tei ''note'')"
| "is_child_note _ = False"

text \<open>The attribute nodes \<open>.../@target\<close> of the selected elements that have one.\<close>

definition targets :: "element list \<Rightarrow> pystr list" where
  "targets es = List.map_filter (\<lambda>e. get e (u ''target'')) es"

text \<open>The pieces of one pass of the loop of \<open>get_lexicon_entries\<close>.\<close>

definition entry_greek :: "element \<Rightarrow> pystr option" where
  "entry_greek entry =
     (let greek = rel_texts is_etym_mentioned entry;
          greek = (if greek = [] then rel_texts is_translation_quote entry else greek)
      in first_opt greek)"

definition entry_senses :: "element \<Rightarrow> Sense list" where
  "entry_senses entry =
     map (\<lambda>sense. \<lparr>se_def_ka = first_or (rel_texts (is_def_lang (u ''ka'')) sense) [],
                     se_def_en = first_or (rel_texts (is_def_lang (u ''en'')) sense) []\<rparr>)
       (findall_desc (tei ''sense'') entry)"

definition entry_examples :: "element \<Rightarrow> Example list" where
  "entry_examples entry =
     concat (map (\<lambda>cit.
         (case rel_texts is_child_quote cit of
            [] \<Rightarrow> []
          | q # _ \<Rightarrow> [\<lparr>ex_quote = q, ex_ref = first_or (rel_texts is_bibl_ref cit) []\<rparr>]))
       (filter (\<lambda>cit. get cit (u ''type'') = Some (u ''example''))
          (findall_desc (tei ''cit'') entry)))"

definition entry_occurrences :: "element \<Rightarrow> pystr list" where
  "entry_occurrences entry =
     map (\<lambda>ref. last (split (u ''sec.'') ref))
       (filter (contains (u ''sec.'')) (targets (rel_elems is_cit_bibl_ref entry)))"

definition entry_see_also :: "element \<Rightarrow> pystr list" where
  "entry_see_also entry =
     concat (map (\<lambda>xr.
         (case targets (rel_elems is_child_ref xr) of
            [] \<Rightarrow> []
          | t # _ \<Rightarrow> [replace (u ''#'') [] t]))
       (findall_desc (tei ''xr'') entry))"

definition lexicon_entry :: "element \<Rightarrow> LexiconEntry" where
  "lexicon_entry entry =
     (let entry_id = get_or entry XML_ID [];
          occurrences = entry_occurrences entry
      in \<lparr>le_id = replace (u ''lex.'') [] entry_id,
          le_lemma = first_or (rel_texts is_lemma_orth entry) [],
          le_pos = first_opt (rel_texts is_pos entry),
          le_greek = entry_greek entry,
          le_senses = entry_senses entry,
          le_examples = entry_examples entry,
          le_occurrences = occurrences,
          le_see_also = entry_see_also entry,
          le_note = first_opt (rel_texts is_child_note entry),
          le_occurrence_count = int (length occurrences)\<rparr>)"

text \<open>\<open>get_lexicon_entries\<close>: the entries in document order, then sorted by lemma.\<close>

definition get_lexicon_entries :: "element \<Rightarrow> LexiconEntry list" where
  "get_lexicon_entries tree = sort_key le_lemma (map lexicon_entry (doc_elems is_entry tree))"

section \<open>Notions used in the statements\<close>

text \<open>
  The apparatus markers of a content list, and what pairs a marker with an apparatus
  entry: the identifier and the index that both carry.
\<close>

definition app_nodes :: "ContentNode list \<Rightarrow> ContentNode list" where
  "app_nodes cs = filter (\<lambda>n. cn_type n = u ''app'') cs"

definition app_keys :: "ContentNode list \<Rightarrow> (pystr option \<times> int option) list" where
  "app_keys cs = map (\<lambda>n. (cn_id n, cn_index n)) (app_nodes cs)"

definition entry_keys :: "AppEntry list \<Rightarrow> (pystr option \<times> int option) list" where
  "entry_keys es = map (\<lambda>e. (Some (ae_id e), Some (ae_index e))) es"

definition entry_indices :: "AppEntry list \<Rightarrow> int list" where
  "entry_indices es = map ae_index es"

text \<open>
  What one step of the walk does to the state: it appends to both lists, the appended
  markers and entries carry the same keys, and the entries are numbered from the old
  counter to the new one.
\<close>

definition walk_ok :: "walk \<Rightarrow> walk \<Rightarrow> bool" where
  "walk_ok st st' = (\<exists>cs es. content st' = content st @ cs \<and> apparatus st' = apparatus st @ es
      \<and> app_keys cs = entry_keys es
      \<and> entry_indices es = [app_counter st + 1..app_counter st']
      \<and> app_counter st \<le> app_counter st')"

text \<open>The indices of all apparatus entries of a document, section after section.\<close>

definition all_entry_indices :: "Section list \<Rightarrow> int list" where
  "all_entry_indices secs = concat (map (\<lambda>s. entry_indices (sec_apparatus s)) secs)"

section \<open>Literals\<close>

lemma u_eq_iff [simp]: "u a = u b \<longleftrightarrow> a = b"
  unfolding u_def by (rule inj_map_eq_map) (rule inj_of_char)

section \<open>The apparatus counter\<close>

lemma upto_append: "(a::int) \<le> b \<Longrightarrow> b \<le> c \<Longrightarrow> [a + 1..b] @ [b + 1..c] = [a + 1..c]"
  by (cases "a = b") (simp_all add: upto_split2 [of "a + 1" b c])

lemma walk_ok_refl: "walk_ok st st"
  by (simp add: walk_ok_def app_keys_def app_nodes_def entry_keys_def entry_indices_def)

lemma walk_ok_trans:
  assumes "walk_ok s1 s2" "walk_ok s2 s3"
  shows "walk_ok s1 s3"
proof -
  from assms(1) obtain cs es where
    1: "content s2 = content s1 @ cs" "apparatus s2 = apparatus s1 @ es"
       "app_keys cs = entry_keys es"
       "entry_indices es = [app_counter s1 + 1..app_counter s2]"
       "app_counter s1 \<le> app_counter s2"
    unfolding walk_ok_def by blast
  from assms(2) obtain cs' es' where
    2: "content s3 = content s2 @ cs'" "apparatus s3 = apparatus s2 @ es'"
       "app_keys cs' = entry_keys es'"
       "entry_indices es' = [app_counter s2 + 1..app_counter s3]"
       "app_counter s2 \<le> app_counter s3"
    unfolding walk_ok_def by blast
  have "app_keys (cs @ cs') = entry_keys (es @ es')"
    using 1(3) 2(3) by (simp add: app_keys_def app_nodes_def entry_keys_def)
  moreover have "entry_indices (es @ es') = [app_counter s1 + 1..app_counter s3]"
    using 1(4,5) 2(4,5) upto_append [of "app_counter s1" "app_counter s2" "app_counter s3"]
    by (simp add: entry_indices_def)
  ultimately show ?thesis
    unfolding walk_ok_def using 1(1,2,5) 2(1,2,5)
    by (intro exI [of _ "cs @ cs'"] exI [of _ "es @ es'"]) simp
qed

lemma walk_ok_append_node:
  "cn_type n \<noteq> u ''app'' \<Longrightarrow> walk_ok st (append_node n st)"
  unfolding walk_ok_def append_node_def
  by (intro exI [of _ "[n]"] exI [of _ "[]"]) (simp add: app_keys_def app_nodes_def entry_keys_def entry_indices_def)

lemma cn_type_text_node [simp]: "cn_type (text_node v) = u ''text''"
  by (simp add: text_node_def node_def)

lemma walk_ok_append_text: "walk_ok st (append_text t st)"
  by (auto simp: append_text_def walk_ok_refl walk_ok_append_node split: option.splits)

lemma process_app_shape:
  "\<exists>n e. process_app elem st =
      \<lparr>content = content st @ [n], apparatus = apparatus st @ [e],
       app_counter = app_counter st + 1\<rparr>
    \<and> cn_type n = u ''app'' \<and> cn_index n = Some (app_counter st + 1)
    \<and> ae_index e = app_counter st + 1 \<and> cn_id n = Some (ae_id e)"
  unfolding process_app_def Let_def
  by (cases "readings_loop (findall (tei ''rdg'') elem) ([], None)") (simp add: node_def)

lemma walk_ok_process_app: "walk_ok st (process_app elem st)"
proof -
  obtain n e where *: "process_app elem st =
      \<lparr>content = content st @ [n], apparatus = apparatus st @ [e],
       app_counter = app_counter st + 1\<rparr>"
    "cn_type n = u ''app''" "cn_index n = Some (app_counter st + 1)"
    "ae_index e = app_counter st + 1" "cn_id n = Some (ae_id e)"
    using process_app_shape [of elem st] by blast
  show ?thesis
    unfolding walk_ok_def
    by (intro exI [of _ "[n]"] exI [of _ "[e]"])
       (simp add: * app_keys_def app_nodes_def entry_keys_def entry_indices_def)
qed

lemma cn_type_nodes [simp]:
  "cn_type (term_node e) = u ''term''"
  "cn_type (folio_node e) = u ''folio''"
  "cn_type (cb_node e) = u ''folio''"
  "cn_type (greek_node e) = u ''greek''"
  "cn_type (mentioned_node e nx) = u ''mentioned''"
  by (simp_all add: term_node_def folio_node_def cb_node_def greek_node_def
      mentioned_node_def node_def Let_def)

lemma walk_ok_process:
  "walk_ok st (process_element e nx tlt st)"
  "walk_ok st (process_children es st)"
proof (induction e nx tlt st and es st rule: process_element_process_children.induct)
  case (1 q a tx cs tt next_sib tail_text st)
  have inner: "walk_ok st (process_children cs (append_text tx st))"
    if "localname q \<noteq> u ''app''" "localname q \<noteq> u ''term''" "localname q \<noteq> u ''pb''"
       "\<not> (localname q = u ''milestone'' \<and> get (Element q a tx cs tt) (u ''unit'') = Some (u ''folio''))"
       "localname q \<noteq> u ''cb''"
       "\<not> (localname q = u ''foreign'' \<and> get (Element q a tx cs tt) XML_LANG = Some (u ''grc''))"
       "localname q \<noteq> u ''mentioned''" "localname q \<noteq> u ''gloss''"
       "\<not> (localname q = u ''persName'' \<or> localname q = u ''q'')"
    using 1 [OF refl refl that] walk_ok_append_text walk_ok_trans by blast
  show ?case
    apply (simp only: process_element.simps Let_def)
    apply (rule walk_ok_trans [OF _ walk_ok_append_text])
    apply (simp only: if_distrib [of "walk_ok st"] split: if_split)
    apply (intro conjI impI walk_ok_process_app walk_ok_append_node walk_ok_refl)
    apply (simp_all add: inner)
    done
next
  case (2 st)
  show ?case by (simp add: walk_ok_refl)
next
  case (3 child rest st)
  show ?case
    apply (simp only: process_children.simps)
    apply (rule walk_ok_trans [OF _ "3.IH"(2)])
    apply (rule walk_ok_trans [OF "3.IH"(1) walk_ok_append_text])
    done
qed


lemma walk_ok_parse_paragraph: "walk_ok st (parse_paragraph p st)"
  unfolding parse_paragraph_def
  by (rule walk_ok_trans [OF walk_ok_append_text walk_ok_process(2)])

lemma walk_ok_fold: "walk_ok st (fold parse_paragraph ps st)"
proof (induction ps arbitrary: st)
  case Nil
  show ?case by (simp add: walk_ok_refl)
next
  case (Cons p ps)
  show ?case
    using walk_ok_trans [OF walk_ok_parse_paragraph Cons.IH] by simp
qed

lemma parse_section_content_indices:
  assumes "parse_section_content d c = (cont, app, c')"
  shows "app_keys cont = entry_keys app" "entry_indices app = [c + 1..c']" "c \<le> c'"
proof -
  let ?s0 = "\<lparr>content = [], apparatus = [], app_counter = c\<rparr>"
  let ?s1 = "fold parse_paragraph (findall_desc (tei ''p'') d) ?s0"
  have eq: "cont = content ?s1" "app = apparatus ?s1" "c' = app_counter ?s1"
    using assms by (simp_all add: parse_section_content_def Let_def)
  have "walk_ok ?s0 ?s1" by (rule walk_ok_fold)
  then show "app_keys cont = entry_keys app" "entry_indices app = [c + 1..c']" "c \<le> c'"
    unfolding walk_ok_def eq by auto
qed

lemma sections_loop_inv:
  assumes "sections_loop b ds (secs, c) = (secs', c')"
    and "all_entry_indices secs = [c0 + 1..c]" "c0 \<le> c"
    and "map (\<lambda>s. app_keys (sec_content s)) secs = map (\<lambda>s. entry_keys (sec_apparatus s)) secs"
  shows "all_entry_indices secs' = [c0 + 1..c'] \<and> c0 \<le> c'
    \<and> map (\<lambda>s. app_keys (sec_content s)) secs' = map (\<lambda>s. entry_keys (sec_apparatus s)) secs'"
  using assms
proof (induction ds arbitrary: secs c)
  case Nil
  then show ?case by simp
next
  case (Cons d ds)
  obtain cont app c1 where p: "parse_section_content d c = (cont, app, c1)"
    by (cases "parse_section_content d c") auto
  obtain s where s: "section_of b d c = (s, c1)" "sec_content s = cont" "sec_apparatus s = app"
    by (simp add: section_of_def Let_def p)
  note k = parse_section_content_indices [OF p]
  have loop: "sections_loop b ds (secs @ [s], c1) = (secs', c')"
    using Cons.prems(1) s(1) by simp
  have "all_entry_indices (secs @ [s]) = [c0 + 1..c1]"
    using Cons.prems(2,3) k(2,3) s(3) upto_append [of c0 c c1]
    by (simp add: all_entry_indices_def)
  moreover have "c0 \<le> c1" using Cons.prems(3) k(3) by simp
  moreover have "map (\<lambda>s. app_keys (sec_content s)) (secs @ [s])
      = map (\<lambda>s. entry_keys (sec_apparatus s)) (secs @ [s])"
    using Cons.prems(4) k(1) s(2,3) by simp
  ultimately show ?case
    using Cons.IH [OF loop] by blast
qed

text \<open>
  C1. On every document, the indices of the apparatus entries, read section after section
  in the order in which the entries were appended, are exactly 1, 2, ..., n: they are
  strictly increasing across the whole document, and the counter is not reset between
  sections. In every section the apparatus markers of the content, in order, carry the
  same identifier and index as the entries of the section's apparatus, in order: a marker
  has the index of the entry created with it.
\<close>

theorem app_index_strictly_increasing:
  "all_entry_indices (get_sections tree) = [1..int (length (all_entry_indices (get_sections tree)))]
   \<and> sorted_wrt (<) (all_entry_indices (get_sections tree))
   \<and> map (\<lambda>s. app_keys (sec_content s)) (get_sections tree)
       = map (\<lambda>s. entry_keys (sec_apparatus s)) (get_sections tree)"
proof -
  obtain secs c where l: "sections_loop (get_cts_urn tree) (doc_elems is_section_div tree) ([], 0) = (secs, c)"
    by (cases "sections_loop (get_cts_urn tree) (doc_elems is_section_div tree) ([], 0)") auto
  have g: "get_sections tree = secs" by (simp add: get_sections_def l)
  have inv: "all_entry_indices secs = [0 + 1..c] \<and> 0 \<le> c
    \<and> map (\<lambda>s. app_keys (sec_content s)) secs = map (\<lambda>s. entry_keys (sec_apparatus s)) secs"
    by (rule sections_loop_inv [OF l]) (simp_all add: all_entry_indices_def)
  then have "length (all_entry_indices secs) = nat c" by simp
  with inv show ?thesis unfolding g by (simp add: sorted_wrt_upto)
qed


end
